theory Spec2Isabelle
  imports Main "HOL-Library.Word"
begin

section \<open>Data model\<close>

text \<open>
  The sample module of the coding standard: the header
  \<^verbatim>\<open>Source/OUUCodingStandard/Public/OUUCodingStandard.h\<close> and its implementation
  \<^verbatim>\<open>Source/OUUCodingStandard/Private/OUUCodingStandard.cpp\<close>.

  \<^verbatim>\<open>int32\<close> is a 32-bit word read as two's complement: the comparisons of the source
  are the signed ones, \<open><s\<close> and \<open>\<le>s\<close>. \<^verbatim>\<open>FString\<close> and \<^verbatim>\<open>FName\<close> are strings, a
  \<^verbatim>\<open>TEXT("...")\<close> literal is the string itself.
\<close>

type_synonym int32 = "32 word"
type_synonym uint8 = "8 word"
type_synonym FString = string
type_synonym FName = string

text \<open>
  \<^verbatim>\<open>enum class EAwesomenessLevel { NotAwesome, SemiAwesome, Awesome, NumOf };\<close>

  A scoped enumeration without an explicit base has the underlying type \<^verbatim>\<open>int\<close>, and
  every value of the underlying type is a value of the enumeration. The model keeps the
  underlying value, so that values outside the four enumerators exist, as they do in C++.
\<close>

datatype EAwesomenessLevel = EAwesomenessLevel (underlying: int32)

definition NotAwesome :: EAwesomenessLevel where
  "NotAwesome = EAwesomenessLevel 0"

definition SemiAwesome :: EAwesomenessLevel where
  "SemiAwesome = EAwesomenessLevel 1"

definition Awesome :: EAwesomenessLevel where
  "Awesome = EAwesomenessLevel 2"

definition NumOf :: EAwesomenessLevel where
  "NumOf = EAwesomenessLevel 3"

text \<open>
  \<^verbatim>\<open>enum class EOUUExampleBodyPartColor : uint8 { Red, Green, Blue, Count };\<close>
\<close>

datatype EOUUExampleBodyPartColor = EOUUExampleBodyPartColor (color_underlying: uint8)

definition Red :: EOUUExampleBodyPartColor where
  "Red = EOUUExampleBodyPartColor 0"

definition Green :: EOUUExampleBodyPartColor where
  "Green = EOUUExampleBodyPartColor 1"

definition Blue :: EOUUExampleBodyPartColor where
  "Blue = EOUUExampleBodyPartColor 2"

definition Count :: EOUUExampleBodyPartColor where
  "Count = EOUUExampleBodyPartColor 3"

text \<open>
  The console variable of the implementation file,
  \<^verbatim>\<open>TAutoConsoleVariable<int32> CVar_MinAwesomeness(TEXT("ouu.CodingStandard.MinAwesomeness"), 100, ...)\<close>,
  is the only global of the module. It is process-wide mutable state, so the model passes
  it explicitly: a record of the console variables, read by every function that reads
  the variable in the source.
\<close>

record console_variables =
  CVar_MinAwesomeness :: int32

definition initial_console_variables :: console_variables where
  "initial_console_variables = \<lparr>CVar_MinAwesomeness = 100\<rparr>"

text \<open>
  Modelled from the spec: the engine's \<^verbatim>\<open>TAutoConsoleVariable<int32>::GetValueOnAnyThread\<close>
  is not part of the sources. The spec describes the threshold as a single process-wide
  signed integer setting that the classifier reads on every call; reading it returns the
  value stored at that moment.
\<close>

definition GetValueOnAnyThread :: "console_variables \<Rightarrow> int32" where
  "GetValueOnAnyThread cv = CVar_MinAwesomeness cv"

text \<open>
  Modelled from the spec: the write path of the console variable belongs to the engine's
  console and is not part of the sources. The spec describes it as an external
  configuration mechanism that may set the threshold to any signed integer at any time,
  without validation.
\<close>

definition SetMinAwesomeness :: "int32 \<Rightarrow> console_variables \<Rightarrow> console_variables" where
  "SetMinAwesomeness T cv = cv\<lparr>CVar_MinAwesomeness := T\<rparr>"

section \<open>Free functions of the namespace\<close>

text \<open>
  \<^verbatim>\<open>
  EAwesomenessLevel AwesomenessLevelFromIntValue(int32 Awesomeness)
  {
      if (Awesomeness < 0)
          return EAwesomenessLevel::NotAwesome;
      if (Awesomeness < Private::CVar_MinAwesomeness.GetValueOnAnyThread())
          return EAwesomenessLevel::SemiAwesome;
      return EAwesomenessLevel::Awesome;
  }
  \<close>
\<close>

definition AwesomenessLevelFromIntValue :: "console_variables \<Rightarrow> int32 \<Rightarrow> EAwesomenessLevel" where
  "AwesomenessLevelFromIntValue cv Awesomeness =
     (if Awesomeness <s 0 then NotAwesome
      else if Awesomeness <s GetValueOnAnyThread cv then SemiAwesome
      else Awesome)"

text \<open>
  \<^verbatim>\<open>
  FString LexToString(EAwesomenessLevel AwesomenessLevel)
  {
      switch (AwesomenessLevel)
      {
      case EAwesomenessLevel::NotAwesome: return TEXT("NotAwesome");
      case EAwesomenessLevel::SemiAwesome: return TEXT("SemiAwesome");
      case EAwesomenessLevel::Awesome: return TEXT("Awesome");
      default: return TEXT("<invalid>");
      }
  }
  \<close>
\<close>

definition LexToString :: "EAwesomenessLevel \<Rightarrow> FString" where
  "LexToString AwesomenessLevel =
     (if AwesomenessLevel = NotAwesome then ''NotAwesome''
      else if AwesomenessLevel = SemiAwesome then ''SemiAwesome''
      else if AwesomenessLevel = Awesome then ''Awesome''
      else ''<invalid>'')"

text \<open>
  \<^verbatim>\<open>bool TryLexFromString(EAwesomenessLevel& OutAwesomenessLevel, const FString& String) { return false; }\<close>

  The reference parameter is passed in and returned: the result is the returned flag
  together with the value the caller's variable holds after the call.
\<close>

definition TryLexFromString :: "EAwesomenessLevel \<Rightarrow> FString \<Rightarrow> bool \<times> EAwesomenessLevel" where
  "TryLexFromString OutAwesomenessLevel String = (False, OutAwesomenessLevel)"

section \<open>FNumericAwesomeness\<close>

text \<open>
  The struct has the public member \<^verbatim>\<open>FString AwesomenessReason = TEXT("")\<close> and the
  private member \<^verbatim>\<open>int32 Awesomeness = 0\<close>.
\<close>

record FNumericAwesomeness =
  AwesomenessReason :: FString
  Awesomeness :: int32

text \<open>\<^verbatim>\<open>FNumericAwesomeness() = default;\<close> leaves the default member initialisers.\<close>

definition FNumericAwesomeness_default :: FNumericAwesomeness where
  "FNumericAwesomeness_default = \<lparr>AwesomenessReason = '''', Awesomeness = 0\<rparr>"

text \<open>
  \<^verbatim>\<open>
  FNumericAwesomeness(int32 InAwesomeness, const FString& InAwesomenessReason) :
      AwesomenessReason(InAwesomenessReason), Awesomeness(InAwesomeness) {}
  \<close>
\<close>

definition FNumericAwesomeness_init :: "int32 \<Rightarrow> FString \<Rightarrow> FNumericAwesomeness" where
  "FNumericAwesomeness_init InAwesomeness InAwesomenessReason =
     \<lparr>AwesomenessReason = InAwesomenessReason, Awesomeness = InAwesomeness\<rparr>"

text \<open>
  \<^verbatim>\<open>
  explicit FNumericAwesomeness(int32 InAwesomeness) :
      FNumericAwesomeness(InAwesomeness, TEXT("unknown reason")) {}
  \<close>
\<close>

definition FNumericAwesomeness_explicit :: "int32 \<Rightarrow> FNumericAwesomeness" where
  "FNumericAwesomeness_explicit InAwesomeness =
     FNumericAwesomeness_init InAwesomeness ''unknown reason''"

text \<open>
  \<^verbatim>\<open>
  inline EAwesomenessLevel FNumericAwesomeness::GetAwesomenessLevel() const
  { return AwesomenessLevelFromIntValue(Awesomeness); }
  \<close>
\<close>

definition GetAwesomenessLevel :: "console_variables \<Rightarrow> FNumericAwesomeness \<Rightarrow> EAwesomenessLevel" where
  "GetAwesomenessLevel cv this = AwesomenessLevelFromIntValue cv (Awesomeness this)"

text \<open>
  \<^verbatim>\<open>
  inline bool operator==(const FNumericAwesomeness& LHS, const FNumericAwesomeness& RHS)
  { return LHS.Awesomeness == RHS.Awesomeness; }
  inline bool operator<(const FNumericAwesomeness& LHS, const FNumericAwesomeness& RHS)
  { return LHS.Awesomeness < RHS.Awesomeness; }
  \<close>
\<close>

definition operator_eq :: "FNumericAwesomeness \<Rightarrow> FNumericAwesomeness \<Rightarrow> bool" where
  "operator_eq LHS RHS = (Awesomeness LHS = Awesomeness RHS)"

definition operator_less :: "FNumericAwesomeness \<Rightarrow> FNumericAwesomeness \<Rightarrow> bool" where
  "operator_less LHS RHS = (Awesomeness LHS <s Awesomeness RHS)"

section \<open>AOUUExampleCharacter\<close>

text \<open>
  The members of the actor that its member functions read or write: the replicated
  \<^verbatim>\<open>Score\<close>, the two body part colours, the flag \<^verbatim>\<open>bWasColorChanged\<close> and the
  \<^verbatim>\<open>CharacterData\<close> (an \<^verbatim>\<open>FNumericAwesomeness\<close>), with the default member initialisers of
  the header; the constructor sets \<^verbatim>\<open>HeadColor\<close> from its parameter.
\<close>

record AOUUExampleCharacter =
  Score :: int32
  HeadColor :: EOUUExampleBodyPartColor
  TorsoColor :: EOUUExampleBodyPartColor
  bWasColorChanged :: bool
  CharacterData :: FNumericAwesomeness

definition AOUUExampleCharacter_init :: "EOUUExampleBodyPartColor \<Rightarrow> AOUUExampleCharacter" where
  "AOUUExampleCharacter_init InHeadColor =
     \<lparr>Score = 0, HeadColor = InHeadColor, TorsoColor = Red, bWasColorChanged = False,
      CharacterData = FNumericAwesomeness_default\<rparr>"

definition AOUUExampleCharacter_default :: AOUUExampleCharacter where
  "AOUUExampleCharacter_default = AOUUExampleCharacter_init Red"

definition HeadBodyPartName :: FName where
  "HeadBodyPartName = ''Head''"

definition TorsoBodyPartName :: FName where
  "TorsoBodyPartName = ''Body''"

text \<open>
  \<^verbatim>\<open>
  EAwesomenessLevel AOUUExampleCharacter::GetAwesomenessLevel() const
  { return CharacterData.GetAwesomenessLevel(); }
  \<close>
\<close>

definition Character_GetAwesomenessLevel :: "console_variables \<Rightarrow> AOUUExampleCharacter \<Rightarrow> EAwesomenessLevel" where
  "Character_GetAwesomenessLevel cv this = GetAwesomenessLevel cv (CharacterData this)"

text \<open>
  \<^verbatim>\<open>
  void AOUUExampleCharacter::SetAwesomeness(int32 Awesomeness)
  {
      const auto AwesomenessLevelBefore = CharacterData.GetAwesomenessLevel();
      CharacterData = FCharacterData(Awesomeness, TEXT("set by SetAwesomeness"));
      const auto NewAwesomenessLevel = CharacterData.GetAwesomenessLevel();
      if (NewAwesomenessLevel != AwesomenessLevelBefore)
      {
          OnAwesomenessChanged.Broadcast(NewAwesomenessLevel);
      }
  }
  \<close>

  The effect of \<^verbatim>\<open>OnAwesomenessChanged.Broadcast\<close> is the notification itself: the call
  returns the updated actor together with the list of payloads it broadcast, in order.
\<close>

definition SetAwesomeness ::
  "console_variables \<Rightarrow> int32 \<Rightarrow> AOUUExampleCharacter \<Rightarrow> AOUUExampleCharacter \<times> EAwesomenessLevel list" where
  "SetAwesomeness cv InAwesomeness this =
     (let AwesomenessLevelBefore = GetAwesomenessLevel cv (CharacterData this);
          this' = this\<lparr>CharacterData := FNumericAwesomeness_init InAwesomeness ''set by SetAwesomeness''\<rparr>;
          NewAwesomenessLevel = GetAwesomenessLevel cv (CharacterData this')
      in if NewAwesomenessLevel \<noteq> AwesomenessLevelBefore
         then (this', [NewAwesomenessLevel])
         else (this', []))"

text \<open>
  \<^verbatim>\<open>
  bool AOUUExampleCharacter::ColorBodyPart(FName BodyPartName, EOUUExampleBodyPartColor BodyPartColor)
  {
      ensureMsgf(BodyPartColor != EOUUExampleBodyPartColor::Count, ...);
      checkf(BodyPartColor != EOUUExampleBodyPartColor::Count, ...);
  #if 0
      if (BodyPartName == HeadBodyPartName) { HeadColor = BodyPartColor; }
      else if (BodyPartName == TorsoBodyPartName) { TorsoColor = BodyPartColor; }
  #endif
      bWasColorChanged = true;
      return false;
  }
  \<close>

  \<^verbatim>\<open>ensureMsgf\<close> reports a failed condition and goes on; \<^verbatim>\<open>checkf\<close> stops the program when
  its condition fails ("unrecoverable state that must always lead to a crash", as the
  comment above it says), which is the error value of the model. The block between
  \<^verbatim>\<open>#if 0\<close> and \<^verbatim>\<open>#endif\<close> is removed by the preprocessor and is no part of the function.
\<close>

datatype error = CheckFailed

definition ColorBodyPart ::
  "FName \<Rightarrow> EOUUExampleBodyPartColor \<Rightarrow> AOUUExampleCharacter \<Rightarrow> error + (bool \<times> AOUUExampleCharacter)" where
  "ColorBodyPart BodyPartName BodyPartColor this =
     (if \<not> (BodyPartColor \<noteq> Count) then Inl CheckFailed
      else Inr (False, this\<lparr>bWasColorChanged := True\<rparr>))"

text \<open>
  \<^verbatim>\<open>
  int32 UOUUExampleBlueprintFunctionLibrary::GetAwesomenessThreshold()
  { return OUU::CodingStandard::Private::CVar_MinAwesomeness.GetValueOnAnyThread(); }
  \<close>
\<close>

definition GetAwesomenessThreshold :: "console_variables \<Rightarrow> int32" where
  "GetAwesomenessThreshold cv = GetValueOnAnyThread cv"

section \<open>The classifier\<close>

lemma level_distinct:
  "NotAwesome \<noteq> SemiAwesome" "NotAwesome \<noteq> Awesome" "SemiAwesome \<noteq> Awesome"
  "NumOf \<noteq> NotAwesome" "NumOf \<noteq> SemiAwesome" "NumOf \<noteq> Awesome"
  by (simp_all add: NotAwesome_def SemiAwesome_def Awesome_def NumOf_def)

lemma not_sless_iff_sle: "(\<not> a <s b) = (b \<le>s (a :: int32))"
  by (simp add: word_sless_alt word_sle_eq not_less)

text \<open>
  Claim C1. For every threshold \<open>T\<close> and every score \<open>s\<close> that is not negative, the
  classifier returns \<open>SemiAwesome\<close> when \<open>s < T\<close> and \<open>Awesome\<close> when \<open>s \<ge> T\<close>. The
  comparison with the threshold is strict: a score equal to the threshold is \<open>Awesome\<close>.
\<close>

theorem AwesomenessLevelFromIntValue_nonnegative:
  assumes "0 \<le>s s" and "GetAwesomenessThreshold cv = T"
  shows "(s <s T \<longrightarrow> AwesomenessLevelFromIntValue cv s = SemiAwesome)
       \<and> (T \<le>s s \<longrightarrow> AwesomenessLevelFromIntValue cv s = Awesome)
       \<and> (s = T \<longrightarrow> AwesomenessLevelFromIntValue cv s = Awesome)"
proof -
  from assms(1) have nonneg: "\<not> s <s 0"
    by (simp add: not_sless_iff_sle)
  from assms(2) have thr: "GetValueOnAnyThread cv = T"
    by (simp add: GetAwesomenessThreshold_def)
  have below: "s <s T \<longrightarrow> AwesomenessLevelFromIntValue cv s = SemiAwesome"
    using nonneg thr by (simp add: AwesomenessLevelFromIntValue_def)
  have above: "T \<le>s s \<longrightarrow> AwesomenessLevelFromIntValue cv s = Awesome"
    using nonneg thr by (simp add: AwesomenessLevelFromIntValue_def not_sless_iff_sle [symmetric])
  have equal: "s = T \<longrightarrow> AwesomenessLevelFromIntValue cv s = Awesome"
    using nonneg thr by (auto simp add: AwesomenessLevelFromIntValue_def)
  from below above equal show ?thesis by blast
qed

theorem AwesomenessLevelFromIntValue_nonnegative_witness:
  "AwesomenessLevelFromIntValue initial_console_variables 99 = SemiAwesome
   \<and> AwesomenessLevelFromIntValue initial_console_variables 100 = Awesome
   \<and> AwesomenessLevelFromIntValue initial_console_variables 101 = Awesome"
proof -
  have T: "GetAwesomenessThreshold initial_console_variables = 100"
    by (simp add: GetAwesomenessThreshold_def GetValueOnAnyThread_def initial_console_variables_def)
  have "99 <s (100 :: int32)" "(100 :: int32) \<le>s 101" "0 \<le>s (99 :: int32)"
       "0 \<le>s (100 :: int32)" "0 \<le>s (101 :: int32)"
    by (simp_all add: word_sle_eq)
  then show ?thesis
    using AwesomenessLevelFromIntValue_nonnegative [of 99, OF _ T]
          AwesomenessLevelFromIntValue_nonnegative [of 100, OF _ T]
          AwesomenessLevelFromIntValue_nonnegative [of 101, OF _ T]
    by simp
qed

text \<open>
  Claim C2. For every negative score and every threshold, negative thresholds included,
  the classifier returns \<open>NotAwesome\<close>: the test for a negative score comes first and
  the threshold is not consulted.
\<close>

theorem AwesomenessLevelFromIntValue_negative:
  assumes "s <s 0"
  shows "AwesomenessLevelFromIntValue cv s = NotAwesome
       \<and> AwesomenessLevelFromIntValue (SetMinAwesomeness T cv) s = NotAwesome"
  using assms by (simp add: AwesomenessLevelFromIntValue_def)

theorem AwesomenessLevelFromIntValue_negative_witness:
  "(-1 :: int32) <s 0
   \<and> GetAwesomenessThreshold (SetMinAwesomeness (-5) initial_console_variables) = -5
   \<and> AwesomenessLevelFromIntValue (SetMinAwesomeness (-5) initial_console_variables) (-1) = NotAwesome"
proof -
  have neg: "(-1 :: int32) <s 0"
    by (simp add: word_sless_alt)
  have thr: "GetAwesomenessThreshold (SetMinAwesomeness (-5) initial_console_variables) = -5"
    by (simp add: GetAwesomenessThreshold_def GetValueOnAnyThread_def SetMinAwesomeness_def)
  from neg thr show ?thesis
    using AwesomenessLevelFromIntValue_negative [OF neg, of initial_console_variables "-5"]
    by simp
qed

text \<open>
  Claim C5. The classifier reads the threshold at every call. With the threshold set to
  50 the score 60 is \<open>Awesome\<close>; after the threshold is then set to 1000 the same score
  is \<open>SemiAwesome\<close>. This holds from every earlier state of the console variable.
\<close>

theorem AwesomenessLevelFromIntValue_reads_current_threshold:
  "AwesomenessLevelFromIntValue (SetMinAwesomeness 50 cv) 60 = Awesome
   \<and> AwesomenessLevelFromIntValue (SetMinAwesomeness 1000 (SetMinAwesomeness 50 cv)) 60 = SemiAwesome
   \<and> GetAwesomenessThreshold (SetMinAwesomeness T cv) = T"
  by (simp add: AwesomenessLevelFromIntValue_def GetValueOnAnyThread_def SetMinAwesomeness_def
      GetAwesomenessThreshold_def word_sless_alt)

section \<open>Conversion to and from text\<close>

text \<open>
  Claim C6. \<open>LexToString\<close> maps \<open>NotAwesome\<close>, \<open>SemiAwesome\<close> and \<open>Awesome\<close> to their
  names, and every other value of the enumeration, the sentinel \<open>NumOf\<close> and the values
  outside the enumerators alike, to the text \<open><invalid>\<close>. It always returns a text.
\<close>

theorem LexToString_cases:
  "LexToString NotAwesome = ''NotAwesome''
   \<and> LexToString SemiAwesome = ''SemiAwesome''
   \<and> LexToString Awesome = ''Awesome''
   \<and> LexToString NumOf = ''<invalid>''
   \<and> (l \<noteq> NotAwesome \<and> l \<noteq> SemiAwesome \<and> l \<noteq> Awesome \<longrightarrow> LexToString l = ''<invalid>'')"
proof -
  have named: "LexToString NotAwesome = ''NotAwesome''" "LexToString SemiAwesome = ''SemiAwesome''"
    "LexToString Awesome = ''Awesome''" "LexToString NumOf = ''<invalid>''"
    by (simp_all add: LexToString_def level_distinct level_distinct [symmetric])
  have other: "l \<noteq> NotAwesome \<and> l \<noteq> SemiAwesome \<and> l \<noteq> Awesome \<longrightarrow> LexToString l = ''<invalid>''"
    by (simp add: LexToString_def)
  from named other show ?thesis by blast
qed

theorem LexToString_cases_witness:
  "EAwesomenessLevel (-1) \<noteq> NotAwesome \<and> EAwesomenessLevel (-1) \<noteq> SemiAwesome
   \<and> EAwesomenessLevel (-1) \<noteq> Awesome
   \<and> LexToString (EAwesomenessLevel (-1)) = ''<invalid>''
   \<and> LexToString (EAwesomenessLevel 42) = ''<invalid>''"
proof -
  have out: "EAwesomenessLevel (-1) \<noteq> NotAwesome" "EAwesomenessLevel (-1) \<noteq> SemiAwesome"
    "EAwesomenessLevel (-1) \<noteq> Awesome" "EAwesomenessLevel 42 \<noteq> NotAwesome"
    "EAwesomenessLevel 42 \<noteq> SemiAwesome" "EAwesomenessLevel 42 \<noteq> Awesome"
    by (simp_all add: NotAwesome_def SemiAwesome_def Awesome_def)
  then show ?thesis
    using LexToString_cases [of "EAwesomenessLevel (-1)"] LexToString_cases [of "EAwesomenessLevel 42"]
    by blast
qed

text \<open>
  Claim C3. For every input text, the three names of the levels included,
  \<open>TryLexFromString\<close> returns the flag \<open>false\<close>. It has no other way to end: the
  function is total and has no error result.
\<close>

theorem TryLexFromString_always_fails:
  "fst (TryLexFromString Out String) = False
   \<and> fst (TryLexFromString Out ''NotAwesome'') = False
   \<and> fst (TryLexFromString Out ''SemiAwesome'') = False
   \<and> fst (TryLexFromString Out ''Awesome'') = False"
  by (simp add: TryLexFromString_def)

text \<open>
  Claim C9. For every input text and every value the output parameter holds before the
  call, \<open>TryLexFromString\<close> leaves the output parameter as it was.
\<close>

theorem TryLexFromString_keeps_output_parameter:
  "snd (TryLexFromString Out String) = Out"
  by (simp add: TryLexFromString_def)

section \<open>The value object\<close>

lemma sless_irrefl: "\<not> (x :: int32) <s x"
  by (simp add: word_sless_alt)

text \<open>
  Claim C4. Two \<open>FNumericAwesomeness\<close> values with the same score are equal under
  \<open>operator==\<close> and neither is less than the other under \<open>operator<\<close>, whatever their
  reasons are. Both operators look at the score only: replacing the reasons of the
  operands changes neither result.
\<close>

theorem comparison_ignores_reason:
  "(Awesomeness a = Awesomeness b \<longrightarrow>
      operator_eq a b \<and> \<not> operator_less a b \<and> \<not> operator_less b a)
   \<and> operator_eq (a\<lparr>AwesomenessReason := rA\<rparr>) (b\<lparr>AwesomenessReason := rB\<rparr>) = operator_eq a b
   \<and> operator_less (a\<lparr>AwesomenessReason := rA\<rparr>) (b\<lparr>AwesomenessReason := rB\<rparr>) = operator_less a b"
  by (simp add: operator_eq_def operator_less_def sless_irrefl)

theorem comparison_ignores_reason_witness:
  "Awesomeness (FNumericAwesomeness_init 7 ''brave'') = Awesomeness (FNumericAwesomeness_init 7 ''kind'')
   \<and> FNumericAwesomeness_init 7 ''brave'' \<noteq> FNumericAwesomeness_init 7 ''kind''
   \<and> operator_eq (FNumericAwesomeness_init 7 ''brave'') (FNumericAwesomeness_init 7 ''kind'')
   \<and> \<not> operator_less (FNumericAwesomeness_init 7 ''brave'') (FNumericAwesomeness_init 7 ''kind'')
   \<and> \<not> operator_less (FNumericAwesomeness_init 7 ''kind'') (FNumericAwesomeness_init 7 ''brave'')"
proof -
  have same: "Awesomeness (FNumericAwesomeness_init 7 ''brave'') = Awesomeness (FNumericAwesomeness_init 7 ''kind'')"
    by (simp add: FNumericAwesomeness_init_def)
  have differ: "FNumericAwesomeness_init 7 ''brave'' \<noteq> FNumericAwesomeness_init 7 ''kind''"
    by (simp add: FNumericAwesomeness_init_def)
  from same differ show ?thesis
    using comparison_ignores_reason
      [of "FNumericAwesomeness_init 7 ''brave''" "FNumericAwesomeness_init 7 ''kind''"]
    by blast
qed

text \<open>
  Claim C7. For every score, the constructor that takes the score alone yields a value
  whose reason is the text \<open>unknown reason\<close> (and whose score is the one given).
\<close>

theorem FNumericAwesomeness_explicit_reason:
  "AwesomenessReason (FNumericAwesomeness_explicit s) = ''unknown reason''
   \<and> Awesomeness (FNumericAwesomeness_explicit s) = s"
  by (simp add: FNumericAwesomeness_explicit_def FNumericAwesomeness_init_def)

section \<open>The character\<close>

text \<open>
  Claim C8. For every state of the character and every new score, \<open>SetAwesomeness\<close>
  broadcasts \<open>OnAwesomenessChanged\<close> exactly when the level of the new score differs from
  the level the character had before the call. When it broadcasts, it does so once, with
  the new level; when the level stays, nothing is broadcast.
\<close>

theorem SetAwesomeness_broadcast_iff_level_changes:
  "(snd (SetAwesomeness cv s this) \<noteq> []) =
      (AwesomenessLevelFromIntValue cv s \<noteq> Character_GetAwesomenessLevel cv this)
   \<and> (AwesomenessLevelFromIntValue cv s \<noteq> Character_GetAwesomenessLevel cv this \<longrightarrow>
        snd (SetAwesomeness cv s this) = [AwesomenessLevelFromIntValue cv s])
   \<and> (AwesomenessLevelFromIntValue cv s = Character_GetAwesomenessLevel cv this \<longrightarrow>
        snd (SetAwesomeness cv s this) = [])
   \<and> Character_GetAwesomenessLevel cv (fst (SetAwesomeness cv s this)) = AwesomenessLevelFromIntValue cv s"
  by (simp add: SetAwesomeness_def Character_GetAwesomenessLevel_def GetAwesomenessLevel_def
      FNumericAwesomeness_init_def Let_def)

theorem SetAwesomeness_broadcast_iff_level_changes_witness:
  "Character_GetAwesomenessLevel initial_console_variables AOUUExampleCharacter_default = SemiAwesome
   \<and> AwesomenessLevelFromIntValue initial_console_variables 150 = Awesome
   \<and> snd (SetAwesomeness initial_console_variables 150 AOUUExampleCharacter_default) = [Awesome]
   \<and> AwesomenessLevelFromIntValue initial_console_variables 50 = SemiAwesome
   \<and> snd (SetAwesomeness initial_console_variables 50 AOUUExampleCharacter_default) = []"
proof -
  have before: "Character_GetAwesomenessLevel initial_console_variables AOUUExampleCharacter_default = SemiAwesome"
    by (simp add: Character_GetAwesomenessLevel_def GetAwesomenessLevel_def
        AOUUExampleCharacter_default_def AOUUExampleCharacter_init_def FNumericAwesomeness_default_def
        AwesomenessLevelFromIntValue_def GetValueOnAnyThread_def initial_console_variables_def
        word_sless_alt)
  have up: "AwesomenessLevelFromIntValue initial_console_variables 150 = Awesome"
    by (simp add: AwesomenessLevelFromIntValue_def GetValueOnAnyThread_def
        initial_console_variables_def word_sless_alt)
  have stay: "AwesomenessLevelFromIntValue initial_console_variables 50 = SemiAwesome"
    by (simp add: AwesomenessLevelFromIntValue_def GetValueOnAnyThread_def
        initial_console_variables_def word_sless_alt)
  from before up stay show ?thesis
    using SetAwesomeness_broadcast_iff_level_changes
            [of initial_console_variables 150 AOUUExampleCharacter_default]
          SetAwesomeness_broadcast_iff_level_changes
            [of initial_console_variables 50 AOUUExampleCharacter_default]
    by (simp add: level_distinct [symmetric])
qed

text \<open>
  Claim C10. For every body part name and every colour other than \<open>Count\<close> (the checked
  precondition), \<open>ColorBodyPart\<close> returns \<open>false\<close>, leaves \<open>HeadColor\<close> and \<open>TorsoColor\<close>
  as they were, and changes the character in nothing but \<open>bWasColorChanged\<close>, which it
  sets to \<open>true\<close>.
\<close>

theorem ColorBodyPart_returns_false_and_keeps_colors:
  assumes "BodyPartColor \<noteq> Count"
  shows "\<exists>this'. ColorBodyPart BodyPartName BodyPartColor this = Inr (False, this')
          \<and> HeadColor this' = HeadColor this
          \<and> TorsoColor this' = TorsoColor this
          \<and> bWasColorChanged this' = True
          \<and> this' = this\<lparr>bWasColorChanged := True\<rparr>"
  using assms by (simp add: ColorBodyPart_def)

theorem ColorBodyPart_returns_false_and_keeps_colors_witness:
  "Blue \<noteq> Count
   \<and> ColorBodyPart HeadBodyPartName Blue AOUUExampleCharacter_default
       = Inr (False, AOUUExampleCharacter_default\<lparr>bWasColorChanged := True\<rparr>)
   \<and> HeadColor (AOUUExampleCharacter_default\<lparr>bWasColorChanged := True\<rparr>) = Red"
proof -
  have ok: "Blue \<noteq> Count"
    by (simp add: Blue_def Count_def)
  have head: "HeadColor (AOUUExampleCharacter_default\<lparr>bWasColorChanged := True\<rparr>) = Red"
    by (simp add: AOUUExampleCharacter_default_def AOUUExampleCharacter_init_def)
  from ok head show ?thesis
    using ColorBodyPart_returns_false_and_keeps_colors
            [OF ok, of HeadBodyPartName AOUUExampleCharacter_default]
    by auto
qed

end
